theory Spec2Isabelle
  imports Main "HOL-Library.AList"
begin

section \<open>JavaScript values of the page layout\<close>

text \<open>
  The page layout (\<^verbatim>\<open>this._pageManager.pages\<close>) is a JavaScript array of page records.
  A page record is an object from application identifiers to property objects, and a
  property object has fields such as \<^verbatim>\<open>position\<close>. An object is an association list with
  distinct keys, in the order \<^verbatim>\<open>for ... in\<close> enumerates them. Numbers are the integers the
  settings store unpacks; \<open>JVariant n\<close> is \<^verbatim>\<open>new GLib.Variant("i", n)\<close>.
\<close>

datatype jsval =
    JUndefined
  | JNull
  | JNumber int
  | JString string
  | JVariant int
  | JObject "(string \<times> jsval) list"

text \<open>The external calls of the shell that may throw, and what can be thrown.\<close>

datatype ext_call = Connect | Disconnect | GetPages | SetPages | Redisplay | GoToPage

datatype exn = TypeError | ShellError ext_call

text \<open>
  Reading a property: \<^verbatim>\<open>properties.position\<close> throws a TypeError on \<^verbatim>\<open>undefined\<close> and
  \<^verbatim>\<open>null\<close>, looks the key up in an object, and is \<^verbatim>\<open>undefined\<close> on every other value.
\<close>

fun get_prop :: "jsval \<Rightarrow> string \<Rightarrow> exn + jsval" where
  "get_prop JUndefined k = Inl TypeError"
| "get_prop JNull k = Inl TypeError"
| "get_prop (JObject fs) k = Inr (case map_of fs k of None \<Rightarrow> JUndefined | Some v \<Rightarrow> v)"
| "get_prop v k = Inr JUndefined"

text \<open>Writing a property of an object: an existing key keeps its place, a new one is appended.\<close>

fun set_prop :: "jsval \<Rightarrow> string \<Rightarrow> jsval \<Rightarrow> jsval" where
  "set_prop (JObject fs) k v = JObject (AList.update k v fs)"
| "set_prop w k v = w"

section \<open>Array.prototype.splice\<close>

text \<open>
  \<^verbatim>\<open>xs.splice(start, deleteCount, ...items)\<close>: a negative start counts from the end, both
  numbers are clamped to the array, the removed elements are returned and the array is
  changed in place. The result is the pair (removed, new array).
\<close>

definition js_splice :: "'a list \<Rightarrow> int \<Rightarrow> int \<Rightarrow> 'a list \<Rightarrow> 'a list \<times> 'a list" where
  "js_splice xs start deleteCount items =
     (let len = int (length xs);
          actualStart = (if start < 0 then max (len + start) 0 else min start len);
          actualDeleteCount = min (max deleteCount 0) (len - actualStart);
          s = nat actualStart;
          d = nat actualDeleteCount
      in (take d (drop s xs), take s xs @ items @ drop (s + d) xs))"

text \<open>
  Lines 130-131 of \<^verbatim>\<open>_executeSingleMove\<close>:
  \<^verbatim>\<open>const pageToMove = pagesJS.splice(currentPageIndex, 1)[0];\<close>
  \<^verbatim>\<open>pagesJS.splice(newPageIndex, 0, pageToMove);\<close>
  Element 0 of an empty array of removed elements is \<^verbatim>\<open>undefined\<close>.
\<close>

definition splicePage :: "int \<Rightarrow> int \<Rightarrow> jsval list \<Rightarrow> jsval list" where
  "splicePage currentPageIndex newPageIndex pagesJS =
     (case js_splice pagesJS currentPageIndex 1 [] of
        (removed, pages1) \<Rightarrow>
          (let pageToMove = (case removed of [] \<Rightarrow> JUndefined | p # _ \<Rightarrow> p)
           in snd (js_splice pages1 newPageIndex 0 [pageToMove])))"

section \<open>_normalizePages\<close>

text \<open>A loop over a list whose body may throw: the first exception ends the loop.\<close>

fun forEach :: "('a \<Rightarrow> exn + 'a) \<Rightarrow> 'a list \<Rightarrow> exn + 'a list" where
  "forEach f [] = Inr []"
| "forEach f (x # xs) =
     (case f x of
        Inl e \<Rightarrow> Inl e
      | Inr y \<Rightarrow> (case forEach f xs of Inl e \<Rightarrow> Inl e | Inr ys \<Rightarrow> Inr (y # ys)))"

text \<open>
  The body of the inner loop, for one application entry:
  \<^verbatim>\<open>const positionValue = properties.position;\<close>
  \<^verbatim>\<open>if (typeof positionValue === "number") properties.position = new GLib.Variant("i", positionValue);\<close>
\<close>

definition normalizeProperties :: "jsval \<Rightarrow> exn + jsval" where
  "normalizeProperties properties =
     (case get_prop properties ''position'' of
        Inl e \<Rightarrow> Inl e
      | Inr positionValue \<Rightarrow>
          (case positionValue of
             JNumber n \<Rightarrow> Inr (set_prop properties ''position'' (JVariant n))
           | _ \<Rightarrow> Inr properties))"

text \<open>
  \<^verbatim>\<open>for (const appId in pageData)\<close>: the keys of an object in order; the indices of a string,
  whose elements are one-character strings without a \<^verbatim>\<open>position\<close>; nothing for any other
  value (\<^verbatim>\<open>undefined\<close> and \<^verbatim>\<open>null\<close> included).
\<close>

fun normalizePage :: "jsval \<Rightarrow> exn + jsval" where
  "normalizePage (JObject apps) =
     (case forEach (\<lambda>(appId, properties).
                      case normalizeProperties properties of
                        Inl e \<Rightarrow> Inl e
                      | Inr p \<Rightarrow> Inr (appId, p)) apps of
        Inl e \<Rightarrow> Inl e
      | Inr apps' \<Rightarrow> Inr (JObject apps'))"
| "normalizePage pageData = Inr pageData"

definition normalizePages :: "jsval list \<Rightarrow> exn + jsval list" where
  "normalizePages pages = forEach normalizePage pages"

section \<open>The logger\<close>

text \<open>
  \<^verbatim>\<open>utils/logger.js\<close>: the level is DEBUG (3) when SHELL_DEBUG is set and INFO (2) otherwise;
  a message below the level is dropped. A message is the call site that wrote it, with the
  values it interpolates.
\<close>

datatype level = ERROR | WARN | INFO | DEBUG

datatype message =
    MoveInProgress
  | MoveRequested int int
  | ViewLoadedStateCleared
  | ViewLoadedReceived int
  | IdleStateChanged
  | IdleNavigating int
  | IdleNavigationError exn
  | IdleCleaningUp
  | SaveSuccessful
  | SaveFailed exn

section \<open>The shell and the page mover\<close>

text \<open>
  The shell is everything outside the class: the page manager's layout, the grid's current
  page and page count, the \<^verbatim>\<open>view-loaded\<close> handlers connected to the display (by handler
  id), the number of queued idle callbacks, the calls of \<^verbatim>\<open>_redisplay\<close> and \<^verbatim>\<open>goToPage\<close> made
  so far, the console, whether SHELL_DEBUG is set, and which external calls throw.
\<close>

record shell =
  pages :: "jsval list"
  currentPage :: int
  nPages :: int
  handlers :: "nat list"
  nextHandlerId :: nat
  idleQueue :: nat
  redisplays :: nat
  navigations :: "(int \<times> bool) list"
  console :: "(level \<times> message) list"
  debugMode :: bool
  throws :: "ext_call \<Rightarrow> bool"

record mover =
  appDisplay :: bool
  isMoving :: bool
  targetPageIndex :: "int option"
  rearrangedSignalId :: "nat option"

type_synonym result = "exn option \<times> mover \<times> shell"

definition currentLogLevel :: "shell \<Rightarrow> nat" where
  "currentLogLevel w = (if debugMode w then 3 else 2)"

definition log_debug :: "message \<Rightarrow> shell \<Rightarrow> shell" where
  "log_debug msg w =
     (if currentLogLevel w < 3 then w else w\<lparr>console := console w @ [(DEBUG, msg)]\<rparr>)"

definition log_warn :: "message \<Rightarrow> shell \<Rightarrow> shell" where
  "log_warn msg w =
     (if currentLogLevel w < 1 then w else w\<lparr>console := console w @ [(WARN, msg)]\<rparr>)"

definition log_error :: "message \<Rightarrow> shell \<Rightarrow> shell" where
  "log_error msg w =
     (if currentLogLevel w < 0 then w else w\<lparr>console := console w @ [(ERROR, msg)]\<rparr>)"

text \<open>
  The external calls. Each throws when the shell says so. \<^verbatim>\<open>connect\<close> returns a fresh handler
  id; \<^verbatim>\<open>disconnect\<close> removes the handler; the getter of \<^verbatim>\<open>pages\<close> returns the layout unpacked
  and the setter stores what it is given; \<^verbatim>\<open>_redisplay\<close> and \<^verbatim>\<open>goToPage\<close> are recorded as calls.
\<close>

definition connect :: "shell \<Rightarrow> exn + (nat \<times> shell)" where
  "connect w =
     (if throws w Connect then Inl (ShellError Connect)
      else Inr (nextHandlerId w,
                w\<lparr>handlers := handlers w @ [nextHandlerId w],
                  nextHandlerId := Suc (nextHandlerId w)\<rparr>))"

definition disconnect :: "nat \<Rightarrow> shell \<Rightarrow> exn option \<times> shell" where
  "disconnect i w =
     (if throws w Disconnect then (Some (ShellError Disconnect), w)
      else (None, w\<lparr>handlers := removeAll i (handlers w)\<rparr>))"

definition getPages :: "shell \<Rightarrow> exn + jsval list" where
  "getPages w = (if throws w GetPages then Inl (ShellError GetPages) else Inr (pages w))"

definition setPages :: "jsval list \<Rightarrow> shell \<Rightarrow> exn option \<times> shell" where
  "setPages ps w =
     (if throws w SetPages then (Some (ShellError SetPages), w)
      else (None, w\<lparr>pages := ps\<rparr>))"

definition redisplay :: "shell \<Rightarrow> exn option \<times> shell" where
  "redisplay w =
     (let w1 = w\<lparr>redisplays := Suc (redisplays w)\<rparr>
      in if throws w Redisplay then (Some (ShellError Redisplay), w1) else (None, w1))"

definition goToPage :: "int \<Rightarrow> bool \<Rightarrow> shell \<Rightarrow> exn option \<times> shell" where
  "goToPage pageNumber animate w =
     (let w1 = w\<lparr>navigations := navigations w @ [(pageNumber, animate)]\<rparr>
      in if throws w GoToPage then (Some (ShellError GoToPage), w1)
         else (None, w1\<lparr>currentPage := pageNumber\<rparr>))"

definition idle_add :: "shell \<Rightarrow> shell" where
  "idle_add w = w\<lparr>idleQueue := Suc (idleQueue w)\<rparr>"

text \<open>\<^verbatim>\<open>this._rearrangedSignalId && ...\<close>: \<^verbatim>\<open>null\<close> and the number 0 are falsy.\<close>

fun truthy :: "nat option \<Rightarrow> bool" where
  "truthy None = False"
| "truthy (Some i) = (i \<noteq> 0)"

text \<open>The constructor reads \<^verbatim>\<open>appDisplay._pageManager\<close>, which throws on a missing display.\<close>

definition newPageMover :: "bool \<Rightarrow> exn + mover" where
  "newPageMover display =
     (if display
      then Inr \<lparr>appDisplay = True, isMoving = False, targetPageIndex = None,
                rearrangedSignalId = None\<rparr>
      else Inl TypeError)"

subsection \<open>destroy\<close>

definition destroy :: "mover \<Rightarrow> shell \<Rightarrow> result" where
  "destroy m w =
     (let w1 = (case rearrangedSignalId m of
                  Some i \<Rightarrow>
                    if truthy (Some i) \<and> appDisplay m
                    then snd (disconnect i w) \<comment> \<open>an exception is caught and dropped\<close>
                    else w
                | None \<Rightarrow> w)
      in (None,
          m\<lparr>rearrangedSignalId := None, isMoving := False, targetPageIndex := None\<rparr>,
          w1))"

subsection \<open>The idle callback and the view-loaded handler\<close>

text \<open>The callback given to \<^verbatim>\<open>GLib.idle_add\<close> (lines 101-121).\<close>

definition idleCallback :: "mover \<Rightarrow> shell \<Rightarrow> result" where
  "idleCallback m w =
     (case targetPageIndex m of
        None \<Rightarrow> (None, m\<lparr>isMoving := False\<rparr>, log_warn IdleStateChanged w)
      | Some t \<Rightarrow>
          if \<not> appDisplay m
          then (None, m\<lparr>isMoving := False\<rparr>, log_warn IdleStateChanged w)
          else
            (let w1 = log_debug (IdleNavigating t) w;
                 w3 = (case goToPage t False w1 of
                         (Some e, w2) \<Rightarrow> log_error (IdleNavigationError e) w2
                       | (None, w2) \<Rightarrow> w2);
                 w4 = log_debug IdleCleaningUp w3
             in (None, m\<lparr>targetPageIndex := None, isMoving := False\<rparr>, w4)))"

text \<open>
  \<^verbatim>\<open>if (this._rearrangedSignalId && this._appDisplay) { disconnect; this._rearrangedSignalId = null; }\<close>
  as the handler and the catch block have it: an exception of \<^verbatim>\<open>disconnect\<close> is not caught.
\<close>

definition disconnectListener :: "mover \<Rightarrow> shell \<Rightarrow> result" where
  "disconnectListener m w =
     (case rearrangedSignalId m of
        Some i \<Rightarrow>
          if truthy (Some i) \<and> appDisplay m
          then (case disconnect i w of
                  (Some e, w1) \<Rightarrow> (Some e, m, w1)
                | (None, w1) \<Rightarrow> (None, m\<lparr>rearrangedSignalId := None\<rparr>, w1))
          else (None, m, w)
      | None \<Rightarrow> (None, m, w))"

text \<open>The handler connected to \<^verbatim>\<open>view-loaded\<close> (lines 77-122).\<close>

definition onViewLoaded :: "mover \<Rightarrow> shell \<Rightarrow> result" where
  "onViewLoaded m w =
     (case targetPageIndex m of
        None \<Rightarrow> disconnectListener m (log_warn ViewLoadedStateCleared w)
      | Some t \<Rightarrow>
          if \<not> appDisplay m
          then disconnectListener m (log_warn ViewLoadedStateCleared w)
          else
            (case disconnectListener m (log_debug (ViewLoadedReceived t) w) of
               (Some e, m1, w1) \<Rightarrow> (Some e, m1, w1)
             | (None, m1, w1) \<Rightarrow> (None, m1, idle_add w1)))"

subsection \<open>_executeSingleMove\<close>

text \<open>The try block (lines 125-143): the exception, if one is thrown, and the shell then.\<close>

definition tryMove :: "int \<Rightarrow> int \<Rightarrow> shell \<Rightarrow> exn option \<times> shell" where
  "tryMove currentPageIndex newPageIndex w =
     (case getPages w of
        Inl e \<Rightarrow> (Some e, w)
      | Inr pagesJS \<Rightarrow>
          (case normalizePages (splicePage currentPageIndex newPageIndex pagesJS) of
             Inl e \<Rightarrow> (Some e, w)
           | Inr normalized \<Rightarrow>
               (case setPages normalized w of
                  (Some e, w1) \<Rightarrow> (Some e, w1)
                | (None, w1) \<Rightarrow> redisplay (log_debug SaveSuccessful w1))))"

text \<open>The catch block (lines 144-153).\<close>

definition catchMove :: "exn \<Rightarrow> mover \<Rightarrow> shell \<Rightarrow> result" where
  "catchMove e m w =
     (case disconnectListener m (log_error (SaveFailed e) w) of
        (Some e', m1, w1) \<Rightarrow> (Some e', m1, w1)
      | (None, m1, w1) \<Rightarrow> (None, m1\<lparr>targetPageIndex := None, isMoving := False\<rparr>, w1))"

definition executeSingleMove :: "int \<Rightarrow> int \<Rightarrow> mover \<Rightarrow> shell \<Rightarrow> result" where
  "executeSingleMove currentPageIndex newPageIndex m w =
     (if \<not> appDisplay m \<or> isMoving m then (None, m, log_debug MoveInProgress w)
      else
        (let w1 = log_debug (MoveRequested currentPageIndex newPageIndex) w;
             m1 = m\<lparr>isMoving := True, targetPageIndex := Some newPageIndex\<rparr>
         in case connect w1 of
              Inl e \<Rightarrow> (Some e, m1, w1)
            | Inr (sid, w2) \<Rightarrow>
                (let m2 = m1\<lparr>rearrangedSignalId := Some sid\<rparr>
                 in case tryMove currentPageIndex newPageIndex w2 of
                      (None, w3) \<Rightarrow> (None, m2, w3)
                    | (Some e, w3) \<Rightarrow> catchMove e m2 w3)))"

subsection \<open>The public operations\<close>

definition movePageLeft :: "mover \<Rightarrow> shell \<Rightarrow> result" where
  "movePageLeft m w =
     (if \<not> appDisplay m then (None, m, w)
      else if currentPage w > 0
           then executeSingleMove (currentPage w) (currentPage w - 1) m w
           else (None, m, w))"

definition movePageRight :: "mover \<Rightarrow> shell \<Rightarrow> result" where
  "movePageRight m w =
     (if \<not> appDisplay m then (None, m, w)
      else if currentPage w < nPages w - 1
           then executeSingleMove (currentPage w) (currentPage w + 1) m w
           else (None, m, w))"

definition moveToFirstPage :: "mover \<Rightarrow> shell \<Rightarrow> result" where
  "moveToFirstPage m w =
     (if \<not> appDisplay m then (None, m, w)
      else if currentPage w > 0
           then executeSingleMove (currentPage w) 0 m w
           else (None, m, w))"

definition moveToLastPage :: "mover \<Rightarrow> shell \<Rightarrow> result" where
  "moveToLastPage m w =
     (if \<not> appDisplay m then (None, m, w)
      else if currentPage w < nPages w - 1
           then executeSingleMove (currentPage w) (nPages w - 1) m w
           else (None, m, w))"

subsection \<open>Calling destroy several times in a row\<close>

fun destroyTimes :: "nat \<Rightarrow> mover \<Rightarrow> shell \<Rightarrow> result" where
  "destroyTimes 0 m w = (None, m, w)"
| "destroyTimes (Suc k) m w =
     (case destroy m w of
        (Some e, m1, w1) \<Rightarrow> (Some e, m1, w1)
      | (None, m1, w1) \<Rightarrow> destroyTimes k m1 w1)"

section \<open>Runs of the page mover\<close>

text \<open>
  What can happen to a page mover: one of the four menu actions, the display emitting
  \<^verbatim>\<open>view-loaded\<close> (the handler runs when one is connected), the main loop running a queued
  idle callback (which returns \<^verbatim>\<open>GLib.SOURCE_REMOVE\<close>, so it leaves the queue), a call of
  \<^verbatim>\<open>destroy\<close>, and the world outside changing the current page, the page count, the stored
  layout and which external calls throw.
\<close>

datatype event =
    MoveLeft | MoveRight | MoveToFirst | MoveToLast
  | ViewLoaded | Idle | Destroy
  | Outside int int "jsval list" "ext_call \<Rightarrow> bool"

fun step :: "event \<Rightarrow> mover \<times> shell \<Rightarrow> result" where
  "step MoveLeft (m, w) = movePageLeft m w"
| "step MoveRight (m, w) = movePageRight m w"
| "step MoveToFirst (m, w) = moveToFirstPage m w"
| "step MoveToLast (m, w) = moveToLastPage m w"
| "step ViewLoaded (m, w) = (if handlers w = [] then (None, m, w) else onViewLoaded m w)"
| "step Idle (m, w) =
     (if idleQueue w = 0 then (None, m, w)
      else idleCallback m (w\<lparr>idleQueue := idleQueue w - 1\<rparr>))"
| "step Destroy (m, w) = destroy m w"
| "step (Outside cp np ps th) (m, w) =
     (None, m, w\<lparr>currentPage := cp, nPages := np, pages := ps, throws := th\<rparr>)"

text \<open>
  A run: the events one after the other. An exception ends the event that threw it and
  is kept in the list of exceptions; the fields assigned before it stay assigned.
\<close>

fun run :: "event list \<Rightarrow> mover \<times> shell \<Rightarrow> exn list \<times> mover \<times> shell" where
  "run [] s = ([], s)"
| "run (e # es) s =
     (case step e s of
        (None, s1) \<Rightarrow> run es s1
      | (Some x, s1) \<Rightarrow> (case run es s1 of (xs, s2) \<Rightarrow> (x # xs, s2)))"

fun isMove :: "event \<Rightarrow> bool" where
  "isMove MoveLeft = True"
| "isMove MoveRight = True"
| "isMove MoveToFirst = True"
| "isMove MoveToLast = True"
| "isMove e = False"

text \<open>
  The runs in which no move is requested while the mover is idle with an idle callback
  still queued, from a given mover and shell.
\<close>

fun noMoveOverQueuedIdle :: "event list \<Rightarrow> mover \<times> shell \<Rightarrow> bool" where
  "noMoveOverQueuedIdle [] s = True"
| "noMoveOverQueuedIdle (e # es) s =
     (if isMove e \<and> \<not> isMoving (fst s) \<and> idleQueue (snd s) \<noteq> 0 then False
      else noMoveOverQueuedIdle es (snd (step e s)))"

section \<open>The behaviour the specification describes\<close>

text \<open>Removing the record at an index, and inserting a record at an index.\<close>

definition remove_at :: "nat \<Rightarrow> 'a list \<Rightarrow> 'a list" where
  "remove_at i xs = take i xs @ drop (Suc i) xs"

definition insert_at :: "nat \<Rightarrow> 'a \<Rightarrow> 'a list \<Rightarrow> 'a list" where
  "insert_at i x xs = take i xs @ [x] @ drop i xs"

text \<open>
  Wrapping the \<^verbatim>\<open>position\<close> of one application entry when it is a plain number, and doing
  so for every entry of a page record.
\<close>

fun wrapProperties :: "jsval \<Rightarrow> jsval" where
  "wrapProperties (JObject fs) =
     (case map_of fs ''position'' of
        Some (JNumber n) \<Rightarrow> JObject (AList.update ''position'' (JVariant n) fs)
      | _ \<Rightarrow> JObject fs)"
| "wrapProperties v = v"

fun wrapPage :: "jsval \<Rightarrow> jsval" where
  "wrapPage (JObject apps) =
     JObject (map (\<lambda>(appId, properties). (appId, wrapProperties properties)) apps)"
| "wrapPage v = v"

text \<open>The read, the normalisation or the write of the layout throws.\<close>

definition mutationThrows :: "int \<Rightarrow> int \<Rightarrow> shell \<Rightarrow> bool" where
  "mutationThrows currentPageIndex newPageIndex w =
     (throws w GetPages
      \<or> isl (normalizePages (splicePage currentPageIndex newPageIndex (pages w)))
      \<or> throws w SetPages)"

text \<open>A shell that differs from another one in its console only.\<close>

definition onlyLogged :: "shell \<Rightarrow> shell \<Rightarrow> bool" where
  "onlyLogged w w' = (w' = w\<lparr>console := console w'\<rparr>)"

text \<open>
  A move request that is dropped: nothing is thrown, the mover is as it was, and the shell
  differs in its console at most (same layout, same handlers, same idle queue).
\<close>

definition requestDropped :: "mover \<Rightarrow> shell \<Rightarrow> result \<Rightarrow> bool" where
  "requestDropped m w r =
     (case r of (x, m', w') \<Rightarrow>
        x = None \<and> m' = m \<and> pages w' = pages w \<and> handlers w' = handlers w
        \<and> onlyLogged w w')"

section \<open>Concrete movers, shells and pages\<close>

text \<open>
  The mover the constructor builds, a shell in which nothing has happened yet and no
  external call throws, and a page record with one application entry.
\<close>

definition freshMover :: mover where
  "freshMover = \<lparr>appDisplay = True, isMoving = False, targetPageIndex = None,
                 rearrangedSignalId = None\<rparr>"

definition freshShell :: "jsval list \<Rightarrow> int \<Rightarrow> int \<Rightarrow> bool \<Rightarrow> shell" where
  "freshShell ps cp np dbg =
     \<lparr>pages = ps, currentPage = cp, nPages = np, handlers = [], nextHandlerId = 1,
      idleQueue = 0, redisplays = 0, navigations = [], console = [], debugMode = dbg,
      throws = (\<lambda>c. False)\<rparr>"

definition singleAppPage :: "string \<Rightarrow> jsval \<Rightarrow> jsval" where
  "singleAppPage appId position = JObject [(appId, JObject [(''position'', position)])]"

definition threePages :: "jsval list" where
  "threePages = [singleAppPage ''appA'' (JNumber 0), singleAppPage ''appB'' (JNumber 0),
                 singleAppPage ''appC'' (JNumber 0)]"

text \<open>A layout of pages with one application each, all at the same position.\<close>

definition layoutOf :: "string list \<Rightarrow> jsval \<Rightarrow> jsval list" where
  "layoutOf appIds position = map (\<lambda>appId. singleAppPage appId position) appIds"

text \<open>A shell whose listed external calls throw, and no others.\<close>

definition withThrows :: "ext_call list \<Rightarrow> shell \<Rightarrow> shell" where
  "withThrows cs w = w\<lparr>throws := (\<lambda>c. c \<in> set cs)\<rparr>"

text \<open>
  The shell after \<^verbatim>\<open>destroy\<close>: the handler the mover remembers is disconnected when the id
  is truthy, the display is set and \<^verbatim>\<open>disconnect\<close> returns; nothing else changes.
\<close>

definition unregistered :: "mover \<Rightarrow> shell \<Rightarrow> shell" where
  "unregistered m w =
     (case rearrangedSignalId m of
        None \<Rightarrow> w
      | Some i \<Rightarrow>
          if i \<noteq> 0 \<and> appDisplay m \<and> \<not> throws w Disconnect
          then w\<lparr>handlers := removeAll i (handlers w)\<rparr>
          else w)"

section \<open>The invariant of a mover in use\<close>

text \<open>
  Handler ids are positive, the mover has its display, and while the mover remembers a
  handler a move is in flight and no idle callback is queued.
\<close>

definition listenerInv :: "mover \<times> shell \<Rightarrow> bool" where
  "listenerInv s =
     (case s of (m, w) \<Rightarrow>
        nextHandlerId w \<noteq> 0 \<and> appDisplay m
        \<and> (case rearrangedSignalId m of
              None \<Rightarrow> True
            | Some i \<Rightarrow> i \<noteq> 0 \<and> isMoving m \<and> idleQueue w = 0))"

section \<open>Lemmas on splice\<close>

lemma js_splice_remove:
  assumes "0 \<le> i" "i < int (length xs)"
  shows "js_splice xs i 1 [] = ([xs ! nat i], remove_at (nat i) xs)"
proof -
  have n: "nat i < length xs" using assms by linarith
  have "take (Suc 0) (drop (nat i) xs) = [xs ! nat i]"
    using n by (simp add: take_Suc hd_drop_conv_nth)
  moreover have "min 1 (int (length xs) - i) = 1" using assms by simp
  ultimately show ?thesis
    using assms by (simp add: js_splice_def remove_at_def Let_def min_absorb1)
qed

lemma js_splice_insert:
  assumes "0 \<le> i" "i \<le> int (length xs)"
  shows "js_splice xs i 0 [x] = ([], insert_at (nat i) x xs)"
  using assms by (simp add: js_splice_def insert_at_def Let_def min_absorb1)

lemma length_remove_at: "i < length xs \<Longrightarrow> length (remove_at i xs) = length xs - 1"
  by (simp add: remove_at_def)

lemma splicePage_valid:
  assumes "0 \<le> i" "i < int (length xs)" "0 \<le> j" "j < int (length xs)"
  shows "splicePage i j xs = insert_at (nat j) (xs ! nat i) (remove_at (nat i) xs)"
proof -
  have "nat i < length xs" using assms by linarith
  then have "j \<le> int (length (remove_at (nat i) xs))"
    using assms by (simp add: length_remove_at)
  then show ?thesis
    using assms by (simp add: splicePage_def js_splice_remove js_splice_insert)
qed

lemma insert_at_facts:
  assumes "j \<le> length ys"
  shows "length (insert_at j x ys) = Suc (length ys)"
    and "insert_at j x ys ! j = x"
    and "remove_at j (insert_at j x ys) = ys"
  using assms by (simp_all add: insert_at_def remove_at_def nth_append min_absorb2)

lemma splicePage_example: "splicePage 4 1 [A, B, C, D, E] = [A, E, B, C, D]"
  by (simp add: splicePage_def js_splice_def)

section \<open>Lemmas on normalisation\<close>

lemma forEach_map:
  assumes "\<And>x y. x \<in> set xs \<Longrightarrow> f x = Inr y \<Longrightarrow> y = g x"
  shows "forEach f xs = Inr ys \<Longrightarrow> ys = map g xs"
  using assms
proof (induction xs arbitrary: ys)
  case Nil
  then show ?case by simp
next
  case (Cons x xs)
  then show ?case by (auto split: sum.splits)
qed

lemma normalizeProperties_wrap:
  "normalizeProperties p = Inr p' \<Longrightarrow> p' = wrapProperties p"
  by (cases p) (auto simp: normalizeProperties_def split: option.splits jsval.splits)

lemma normalizePage_wrap: "normalizePage pg = Inr pg' \<Longrightarrow> pg' = wrapPage pg"
proof (cases pg)
  case (JObject apps)
  assume a: "normalizePage pg = Inr pg'"
  then obtain apps' where
    f: "forEach (\<lambda>(appId, properties).
                   case normalizeProperties properties of
                     Inl e \<Rightarrow> Inl e
                   | Inr p \<Rightarrow> Inr (appId, p)) apps = Inr apps'"
    and pg': "pg' = JObject apps'"
    using JObject by (auto split: sum.splits)
  have "apps' = map (\<lambda>(appId, properties). (appId, wrapProperties properties)) apps"
    by (rule forEach_map[OF _ f]) (auto split: sum.splits dest: normalizeProperties_wrap)
  then show ?thesis using JObject pg' by simp
qed auto

lemma normalizePages_wrap: "normalizePages ps = Inr ps' \<Longrightarrow> ps' = map wrapPage ps"
  unfolding normalizePages_def
  by (rule forEach_map) (auto dest: normalizePage_wrap)

lemma get_prop_wrapProperties:
  "get_prop (wrapProperties (JObject fs)) k =
     (if k = ''position''
      then (case map_of fs ''position'' of
              Some (JNumber n) \<Rightarrow> Inr (JVariant n)
            | _ \<Rightarrow> get_prop (JObject fs) k)
      else get_prop (JObject fs) k)"
  by (auto simp: update_conv' split: option.splits jsval.splits)

lemma normalizePages_threePages:
  "normalizePages [singleAppPage x (JNumber c), singleAppPage y (JNumber a),
                   singleAppPage z (JNumber b)]
     = Inr [singleAppPage x (JVariant c), singleAppPage y (JVariant a),
            singleAppPage z (JVariant b)]"
  by (simp add: normalizePages_def normalizeProperties_def singleAppPage_def)

section \<open>Lemmas on the shell\<close>

lemma log_debug_onlyLogged: "onlyLogged w (log_debug msg w)"
  by (simp add: onlyLogged_def log_debug_def)

lemma onlyLogged_refl: "onlyLogged w w"
  by (simp add: onlyLogged_def)

lemma log_fields [simp]:
  "handlers (log_debug msg w) = handlers w"
  "nextHandlerId (log_debug msg w) = nextHandlerId w"
  "idleQueue (log_debug msg w) = idleQueue w"
  "throws (log_debug msg w) = throws w"
  "pages (log_debug msg w) = pages w"
  "handlers (log_warn msg w) = handlers w"
  "nextHandlerId (log_warn msg w) = nextHandlerId w"
  "idleQueue (log_warn msg w) = idleQueue w"
  "throws (log_warn msg w) = throws w"
  "pages (log_warn msg w) = pages w"
  "handlers (log_error msg w) = handlers w"
  "nextHandlerId (log_error msg w) = nextHandlerId w"
  "idleQueue (log_error msg w) = idleQueue w"
  "throws (log_error msg w) = throws w"
  "pages (log_error msg w) = pages w"
  by (simp_all add: log_debug_def log_warn_def log_error_def)

lemma tryMove_fields:
  "handlers (snd (tryMove c n w)) = handlers w"
  "nextHandlerId (snd (tryMove c n w)) = nextHandlerId w"
  "idleQueue (snd (tryMove c n w)) = idleQueue w"
  "throws (snd (tryMove c n w)) = throws w"
  by (simp_all add: tryMove_def getPages_def setPages_def redisplay_def Let_def
      split: sum.splits prod.splits option.splits)

lemma tryMove_pages:
  "pages (snd (tryMove c n w)) = pages w
   \<or> pages (snd (tryMove c n w)) = map wrapPage (splicePage c n (pages w))"
  by (auto simp add: tryMove_def getPages_def setPages_def redisplay_def Let_def
      split: sum.splits prod.splits option.splits dest: normalizePages_wrap)

lemma goToPage_fields:
  "handlers (snd (goToPage t a w)) = handlers w"
  "nextHandlerId (snd (goToPage t a w)) = nextHandlerId w"
  "idleQueue (snd (goToPage t a w)) = idleQueue w"
  by (simp_all add: goToPage_def Let_def)

lemma idleCallback_fields:
  "handlers (snd (snd (idleCallback m w))) = handlers w"
  "nextHandlerId (snd (snd (idleCallback m w))) = nextHandlerId w"
  "idleQueue (snd (snd (idleCallback m w))) = idleQueue w"
  "rearrangedSignalId (fst (snd (idleCallback m w))) = rearrangedSignalId m"
  "\<not> isMoving (fst (snd (idleCallback m w)))"
  by (auto simp add: idleCallback_def Let_def goToPage_fields split: option.splits prod.splits
      dest!: arg_cong[where f=snd])

lemma newPageMover_fresh: "newPageMover True = Inr freshMover"
  by (simp add: newPageMover_def freshMover_def)

lemma executeSingleMove_writes:
  assumes "\<not> isMoving m" "appDisplay m" "\<forall>c. \<not> throws w c"
    and "normalizePages (splicePage i j (pages w)) = Inr ps"
  shows "fst (executeSingleMove i j m w) = None
       \<and> pages (snd (snd (executeSingleMove i j m w))) = ps
       \<and> redisplays (snd (snd (executeSingleMove i j m w))) = Suc (redisplays w)"
  using assms
  by (simp add: executeSingleMove_def connect_def tryMove_def getPages_def setPages_def
      redisplay_def log_debug_def Let_def)

text \<open>
  The catch block calls \<^verbatim>\<open>disconnect\<close> outside any try: where that call throws, the
  exception leaves \<^verbatim>\<open>_executeSingleMove\<close> and the mover is as the try block left it.
\<close>

lemma catchMove_disconnect_throws:
  assumes "truthy (rearrangedSignalId m)" "appDisplay m" "throws w Disconnect"
  shows "catchMove e m w = (Some (ShellError Disconnect), m, log_error (SaveFailed e) w)"
  using assms
  by (cases "rearrangedSignalId m")
     (simp_all add: catchMove_def disconnectListener_def disconnect_def)

section \<open>Lemmas on the invariant and on destroy\<close>

lemma listenerInv_executeSingleMove:
  assumes "listenerInv (m, w)" "isMoving m \<or> idleQueue w = 0"
  shows "listenerInv (snd (executeSingleMove c n m w))"
proof (cases "\<not> appDisplay m \<or> isMoving m")
  case True
  then show ?thesis using assms(1)
    by (auto simp add: executeSingleMove_def listenerInv_def split: option.splits)
next
  case False
  then have idle: "appDisplay m" "\<not> isMoving m" by simp_all
  with assms have st: "rearrangedSignalId m = None" "idleQueue w = 0" "nextHandlerId w \<noteq> 0"
    by (auto simp add: listenerInv_def split: option.splits)
  let ?w2 = "log_debug (MoveRequested c n) w
        \<lparr>handlers := handlers (log_debug (MoveRequested c n) w) @ [nextHandlerId w],
         nextHandlerId := Suc (nextHandlerId w)\<rparr>"
  obtain r w3 where t: "tryMove c n ?w2 = (r, w3)"
    by (cases "tryMove c n ?w2") auto
  have f: "nextHandlerId w3 = Suc (nextHandlerId w)" "idleQueue w3 = 0"
    using tryMove_fields[of c n ?w2] t st by simp_all
  show ?thesis using idle st t f
    by (auto simp add: executeSingleMove_def connect_def Let_def listenerInv_def catchMove_def
        disconnectListener_def disconnect_def split: option.splits prod.splits)
qed

lemma listenerInv_onViewLoaded:
  assumes "listenerInv (m, w)"
  shows "listenerInv (snd (onViewLoaded m w))"
  using assms
  by (auto simp add: onViewLoaded_def disconnectListener_def disconnect_def idle_add_def
      listenerInv_def split: option.splits prod.splits if_splits)

lemma listenerInv_idle:
  assumes "listenerInv (m, w)" "0 < idleQueue w"
  shows "listenerInv (snd (idleCallback m (w\<lparr>idleQueue := idleQueue w - 1\<rparr>)))"
proof -
  from assms have st: "rearrangedSignalId m = None" "nextHandlerId w \<noteq> 0" "appDisplay m"
    by (auto simp add: listenerInv_def split: option.splits)
  obtain r m' w' where i: "idleCallback m (w\<lparr>idleQueue := idleQueue w - 1\<rparr>) = (r, m', w')"
    by (cases "idleCallback m (w\<lparr>idleQueue := idleQueue w - 1\<rparr>)") auto
  have "appDisplay m' = appDisplay m"
    using i by (auto simp add: idleCallback_def Let_def split: option.splits if_splits)
  then show ?thesis
    using idleCallback_fields[of m "w\<lparr>idleQueue := idleQueue w - 1\<rparr>"] st i
    by (simp add: listenerInv_def)
qed

lemma listenerInv_destroy:
  assumes "listenerInv (m, w)"
  shows "listenerInv (snd (destroy m w))"
  using assms
  by (auto simp add: destroy_def disconnect_def listenerInv_def Let_def split: option.splits)

lemma listenerInv_step:
  assumes "listenerInv s" "\<not> (isMove e \<and> \<not> isMoving (fst s) \<and> idleQueue (snd s) \<noteq> 0)"
  shows "listenerInv (snd (step e s))"
proof (cases s)
  case (Pair m w)
  then have q: "isMove e \<Longrightarrow> isMoving m \<or> idleQueue w = 0" using assms(2) by auto
  show ?thesis
  proof (cases e)
    case MoveLeft
    then show ?thesis using assms(1) Pair q
      by (simp add: movePageLeft_def listenerInv_executeSingleMove)
  next
    case MoveRight
    then show ?thesis using assms(1) Pair q
      by (simp add: movePageRight_def listenerInv_executeSingleMove)
  next
    case MoveToFirst
    then show ?thesis using assms(1) Pair q
      by (simp add: moveToFirstPage_def listenerInv_executeSingleMove)
  next
    case MoveToLast
    then show ?thesis using assms(1) Pair q
      by (simp add: moveToLastPage_def listenerInv_executeSingleMove)
  next
    case ViewLoaded
    then show ?thesis using assms(1) Pair by (simp add: listenerInv_onViewLoaded)
  next
    case Idle
    then show ?thesis using assms(1) Pair listenerInv_idle[of m w] by simp
  next
    case Destroy
    then show ?thesis using assms(1) Pair by (simp add: listenerInv_destroy)
  next
    case (Outside cp np ps th)
    then show ?thesis using assms(1) Pair
      by (auto simp add: listenerInv_def split: option.splits)
  qed
qed

lemma listenerInv_run:
  assumes "listenerInv s" "noMoveOverQueuedIdle es s"
  shows "listenerInv (snd (run es s))"
  using assms
proof (induction es arbitrary: s)
  case Nil
  then show ?case by simp
next
  case (Cons e es)
  obtain r s1 where st: "step e s = (r, s1)" by (cases "step e s") auto
  have ok: "\<not> (isMove e \<and> \<not> isMoving (fst s) \<and> idleQueue (snd s) \<noteq> 0)"
    and rest: "noMoveOverQueuedIdle es s1"
    using Cons.prems(2) st by (simp_all split: if_splits)
  have "listenerInv s1" using listenerInv_step[OF Cons.prems(1) ok] st by simp
  then have "listenerInv (snd (run es s1))" using rest by (rule Cons.IH)
  moreover have "snd (run (e # es) s) = snd (run es s1)"
    using st by (simp split: option.splits prod.splits)
  ultimately show ?case by simp
qed

lemma noMoveOverQueuedIdle_take:
  "noMoveOverQueuedIdle es s \<Longrightarrow> noMoveOverQueuedIdle (take k es) s"
proof (induction es arbitrary: s k)
  case Nil
  then show ?case by simp
next
  case (Cons e es)
  then show ?case by (cases k) (auto split: if_splits)
qed

lemma run_reused_3:
  "run [MoveLeft, ViewLoaded, Idle] (freshMover, freshShell threePages 2 3 False)
   = ([], freshMover,
      (freshShell threePages 2 3 False)
        \<lparr>pages := layoutOf [''appA'', ''appC'', ''appB''] (JVariant 0), currentPage := 1,
         nextHandlerId := 2, redisplays := 1, navigations := [(1, False)]\<rparr>)"
  by (simp add: freshMover_def freshShell_def threePages_def singleAppPage_def layoutOf_def
      movePageLeft_def executeSingleMove_def connect_def tryMove_def
      getPages_def setPages_def redisplay_def normalizePages_def normalizeProperties_def
      log_debug_def log_warn_def currentLogLevel_def Let_def onViewLoaded_def
      disconnectListener_def disconnect_def idle_add_def idleCallback_def goToPage_def
      splicePage_def js_splice_def destroy_def)

lemma run_reused_7:
  "run [MoveLeft, ViewLoaded, Idle, Destroy, MoveLeft, ViewLoaded, Idle]
       (freshMover, freshShell threePages 2 3 False)
   = ([], freshMover,
      (freshShell threePages 2 3 False)
        \<lparr>pages := layoutOf [''appC'', ''appA'', ''appB''] (JVariant 0), currentPage := 0,
         nextHandlerId := 3, redisplays := 2, navigations := [(1, False), (0, False)]\<rparr>)"
  by (simp add: freshMover_def freshShell_def threePages_def singleAppPage_def layoutOf_def
      movePageLeft_def executeSingleMove_def connect_def tryMove_def
      getPages_def setPages_def redisplay_def normalizePages_def normalizeProperties_def
      log_debug_def log_warn_def currentLogLevel_def Let_def onViewLoaded_def
      disconnectListener_def disconnect_def idle_add_def idleCallback_def goToPage_def
      splicePage_def js_splice_def destroy_def)

lemma reused_run_allowed:
  "noMoveOverQueuedIdle [MoveLeft, ViewLoaded, Idle, Destroy, MoveLeft, ViewLoaded, Idle]
       (freshMover, freshShell threePages 2 3 False)"
  by (simp add: freshMover_def freshShell_def threePages_def singleAppPage_def layoutOf_def
      movePageLeft_def executeSingleMove_def connect_def tryMove_def
      getPages_def setPages_def redisplay_def normalizePages_def normalizeProperties_def
      log_debug_def log_warn_def currentLogLevel_def Let_def onViewLoaded_def
      disconnectListener_def disconnect_def idle_add_def idleCallback_def goToPage_def
      splicePage_def js_splice_def destroy_def)

lemma destroy_unregistered:
  "destroy m w =
     (None, m\<lparr>rearrangedSignalId := None, isMoving := False, targetPageIndex := None\<rparr>,
      unregistered m w)"
  by (simp add: destroy_def unregistered_def disconnect_def Let_def split: option.splits)

lemma destroyTimes_cleared:
  "rearrangedSignalId m = None \<Longrightarrow>
   destroyTimes k m w =
     (None, (if k = 0 then m else m\<lparr>rearrangedSignalId := None, isMoving := False,
                                    targetPageIndex := None\<rparr>), w)"
proof (induction k arbitrary: m)
  case 0
  then show ?case by simp
next
  case (Suc k)
  have "unregistered m w = w" using Suc.prems by (simp add: unregistered_def)
  then show ?case
    using Suc.IH[of "m\<lparr>rearrangedSignalId := None, isMoving := False, targetPageIndex := None\<rparr>"]
    by (simp add: destroy_unregistered)
qed

section \<open>The claims\<close>

subsection \<open>C1: a move removes the record and reinserts it\<close>

text \<open>
  C1. For a layout \<open>xs\<close> of n records and a move request \<open>(i, j)\<close> with both indices in
  \<open>0..n-1\<close>, the two splices of \<^verbatim>\<open>_executeSingleMove\<close> remove the record at index \<open>i\<close> and
  reinsert it at index \<open>j\<close>: the result has the length of \<open>xs\<close>, holds \<open>xs ! i\<close> at index \<open>j\<close>,
  and without that element is \<open>xs\<close> without its element \<open>i\<close>, so the records in between are
  rotated and no two records are swapped. Moving index 4 to index 1 in \<open>[A, B, C, D, E]\<close>
  yields \<open>[A, E, B, C, D]\<close>. When the mover is idle and no external call throws, the layout
  the page manager holds after \<^verbatim>\<open>_executeSingleMove\<close> is that list, normalised.
\<close>

theorem splicePage_rotates:
  assumes "0 \<le> i" "i < int (length xs)" "0 \<le> j" "j < int (length xs)"
  shows "splicePage i j xs = insert_at (nat j) (xs ! nat i) (remove_at (nat i) xs)
       \<and> length (splicePage i j xs) = length xs
       \<and> splicePage i j xs ! nat j = xs ! nat i
       \<and> remove_at (nat j) (splicePage i j xs) = remove_at (nat i) xs
       \<and> splicePage 4 1 [A, B, C, D, E] = [A, E, B, C, D]
       \<and> (\<not> isMoving m \<and> appDisplay m \<and> (\<forall>c. \<not> throws w c) \<and> pages w = xs
            \<and> normalizePages (splicePage i j xs) = Inr ps
          \<longrightarrow> fst (executeSingleMove i j m w) = None
              \<and> pages (snd (snd (executeSingleMove i j m w)))
                  = map wrapPage (insert_at (nat j) (xs ! nat i) (remove_at (nat i) xs)))"
proof -
  have i: "nat i < length xs" using assms by linarith
  have j: "nat j \<le> length (remove_at (nat i) xs)"
    using assms i by (simp add: length_remove_at)
  have eq: "splicePage i j xs = insert_at (nat j) (xs ! nat i) (remove_at (nat i) xs)"
    using assms by (rule splicePage_valid)
  have len: "length (splicePage i j xs) = length xs"
    using insert_at_facts(1)[OF j] i by (simp add: eq length_remove_at)
  have nth: "splicePage i j xs ! nat j = xs ! nat i"
    using insert_at_facts(2)[OF j] by (simp add: eq)
  have rem: "remove_at (nat j) (splicePage i j xs) = remove_at (nat i) xs"
    using insert_at_facts(3)[OF j] by (simp add: eq)
  have run: "\<not> isMoving m \<and> appDisplay m \<and> (\<forall>c. \<not> throws w c) \<and> pages w = xs
            \<and> normalizePages (splicePage i j xs) = Inr ps
          \<longrightarrow> fst (executeSingleMove i j m w) = None
              \<and> pages (snd (snd (executeSingleMove i j m w)))
                  = map wrapPage (insert_at (nat j) (xs ! nat i) (remove_at (nat i) xs))"
  proof (intro impI)
    assume a: "\<not> isMoving m \<and> appDisplay m \<and> (\<forall>c. \<not> throws w c) \<and> pages w = xs
            \<and> normalizePages (splicePage i j xs) = Inr ps"
    then have n: "normalizePages (splicePage i j (pages w)) = Inr ps" by simp
    have "ps = map wrapPage (splicePage i j xs)"
      using a by (simp add: normalizePages_wrap)
    then show "fst (executeSingleMove i j m w) = None
              \<and> pages (snd (snd (executeSingleMove i j m w)))
                  = map wrapPage (insert_at (nat j) (xs ! nat i) (remove_at (nat i) xs))"
      using executeSingleMove_writes[of m w i j ps] a n eq by simp
  qed
  show ?thesis using eq len nth rem run splicePage_example by blast
qed

text \<open>The theorem of C1 at the five pages A to E, moving index 4 to index 1.\<close>

theorem splicePage_rotates_witness:
  "splicePage 4 1 (layoutOf [''A'', ''B'', ''C'', ''D'', ''E''] (JNumber 0))
     = layoutOf [''A'', ''E'', ''B'', ''C'', ''D''] (JNumber 0)
   \<and> pages (snd (snd (executeSingleMove 4 1 freshMover
        (freshShell (layoutOf [''A'', ''B'', ''C'', ''D'', ''E''] (JNumber 0)) 4 5 False))))
     = layoutOf [''A'', ''E'', ''B'', ''C'', ''D''] (JVariant 0)"
  using splicePage_rotates[of 4 "layoutOf [''A'', ''B'', ''C'', ''D'', ''E''] (JNumber 0)" 1
      JNull JNull JNull JNull JNull freshMover
      "freshShell (layoutOf [''A'', ''B'', ''C'', ''D'', ''E''] (JNumber 0)) 4 5 False"
      "layoutOf [''A'', ''E'', ''B'', ''C'', ''D''] (JVariant 0)"]
  by (simp add: freshMover_def freshShell_def layoutOf_def singleAppPage_def insert_at_def
      remove_at_def normalizePages_def normalizeProperties_def)

subsection \<open>C2: a request made while a move is in flight is dropped\<close>

text \<open>
  C2. When the busy flag \<^verbatim>\<open>_isMoving\<close> is set, \<^verbatim>\<open>_executeSingleMove\<close> with any indices, and
  each of the four public operations, throws nothing and returns with the mover as it was
  (so the pending target index and the remembered handler id are unchanged) and with the
  shell changed in its console at most: the page layout is the same, no second handler is
  connected, nothing is queued. \<^verbatim>\<open>_executeSingleMove\<close> writes one debug message, which the
  logger drops unless SHELL_DEBUG is set.
\<close>

theorem busy_request_is_dropped:
  assumes "isMoving m"
  shows "executeSingleMove c n m w = (None, m, log_debug MoveInProgress w)
       \<and> requestDropped m w (executeSingleMove c n m w)
       \<and> requestDropped m w (movePageLeft m w)
       \<and> requestDropped m w (movePageRight m w)
       \<and> requestDropped m w (moveToFirstPage m w)
       \<and> requestDropped m w (moveToLastPage m w)"
  using assms
  by (simp add: executeSingleMove_def movePageLeft_def movePageRight_def moveToFirstPage_def
      moveToLastPage_def requestDropped_def log_debug_onlyLogged onlyLogged_refl)

text \<open>The theorem of C2 at a mover with a move in flight and its handler connected.\<close>

theorem busy_request_is_dropped_witness:
  "isMoving (freshMover\<lparr>isMoving := True, targetPageIndex := Some 0,
                         rearrangedSignalId := Some 1\<rparr>)
   \<and> executeSingleMove 1 2
        (freshMover\<lparr>isMoving := True, targetPageIndex := Some 0, rearrangedSignalId := Some 1\<rparr>)
        ((freshShell threePages 1 3 True)\<lparr>handlers := [1]\<rparr>)
      = (None,
         freshMover\<lparr>isMoving := True, targetPageIndex := Some 0, rearrangedSignalId := Some 1\<rparr>,
         (freshShell threePages 1 3 True)\<lparr>handlers := [1],
                                           console := [(DEBUG, MoveInProgress)]\<rparr>)
   \<and> requestDropped
        (freshMover\<lparr>isMoving := True, targetPageIndex := Some 0, rearrangedSignalId := Some 1\<rparr>)
        ((freshShell threePages 1 3 True)\<lparr>handlers := [1]\<rparr>)
        (movePageRight
          (freshMover\<lparr>isMoving := True, targetPageIndex := Some 0, rearrangedSignalId := Some 1\<rparr>)
          ((freshShell threePages 1 3 True)\<lparr>handlers := [1]\<rparr>))"
  using busy_request_is_dropped[of
      "freshMover\<lparr>isMoving := True, targetPageIndex := Some 0, rearrangedSignalId := Some 1\<rparr>"
      1 2 "(freshShell threePages 1 3 True)\<lparr>handlers := [1]\<rparr>"]
  by (simp add: freshMover_def freshShell_def log_debug_def currentLogLevel_def)

subsection \<open>C3: the end-to-end scenario\<close>

text \<open>
  C3. With the layout \<open>[{appA}, {appB}, {appC}]\<close>, three pages, current page 2, an idle
  mover and a shell in which no external call throws: \<^verbatim>\<open>moveToFirstPage\<close> writes the layout
  \<open>[{appC}, {appA}, {appB}]\<close> (each position wrapped), calls \<^verbatim>\<open>_redisplay\<close> once and leaves
  the mover busy with target 0 and one handler connected; the \<^verbatim>\<open>view-loaded\<close> handler then
  disconnects itself and queues one idle callback; that callback calls \<^verbatim>\<open>goToPage(0, false)\<close>
  and clears the busy flag and the target. Nothing is thrown, \<^verbatim>\<open>_redisplay\<close> is called
  exactly once and the layout stays as written.
\<close>

theorem move_to_first_scenario:
  fixes a b c :: int and dbg :: bool
  defines "w0 \<equiv> freshShell [singleAppPage ''appA'' (JNumber a), singleAppPage ''appB'' (JNumber b),
                             singleAppPage ''appC'' (JNumber c)] 2 3 dbg"
  defines "final \<equiv> [singleAppPage ''appC'' (JVariant c), singleAppPage ''appA'' (JVariant a),
                     singleAppPage ''appB'' (JVariant b)]"
  shows "\<exists>m1 w1 m2 w2 m3 w3.
           run [MoveToFirst] (freshMover, w0) = ([], m1, w1)
         \<and> pages w1 = final \<and> redisplays w1 = 1 \<and> navigations w1 = []
         \<and> isMoving m1 \<and> targetPageIndex m1 = Some 0 \<and> handlers w1 = [1]
         \<and> run [ViewLoaded] (m1, w1) = ([], m2, w2)
         \<and> pages w2 = final \<and> redisplays w2 = 1 \<and> navigations w2 = []
         \<and> handlers w2 = [] \<and> idleQueue w2 = 1 \<and> isMoving m2
         \<and> run [Idle] (m2, w2) = ([], m3, w3)
         \<and> pages w3 = final \<and> redisplays w3 = 1 \<and> navigations w3 = [(0, False)]
         \<and> currentPage w3 = 0 \<and> idleQueue w3 = 0 \<and> handlers w3 = []
         \<and> \<not> isMoving m3 \<and> targetPageIndex m3 = None \<and> rearrangedSignalId m3 = None
         \<and> run [MoveToFirst, ViewLoaded, Idle] (freshMover, w0) = ([], m3, w3)"
  unfolding w0_def final_def
  by (simp add: freshShell_def freshMover_def moveToFirstPage_def executeSingleMove_def
      connect_def tryMove_def getPages_def setPages_def redisplay_def
      normalizePages_threePages log_debug_def currentLogLevel_def Let_def onViewLoaded_def
      disconnectListener_def disconnect_def idle_add_def idleCallback_def goToPage_def
      splicePage_def js_splice_def)

text \<open>The theorem of C3 with every position 0 and SHELL_DEBUG unset.\<close>

theorem move_to_first_scenario_witness:
  "fst (run [MoveToFirst, ViewLoaded, Idle] (freshMover, freshShell threePages 2 3 False)) = []
   \<and> pages (snd (snd (run [MoveToFirst, ViewLoaded, Idle]
                          (freshMover, freshShell threePages 2 3 False))))
      = layoutOf [''appC'', ''appA'', ''appB''] (JVariant 0)
   \<and> navigations (snd (snd (run [MoveToFirst, ViewLoaded, Idle]
                          (freshMover, freshShell threePages 2 3 False))))
      = [(0, False)]
   \<and> redisplays (snd (snd (run [MoveToFirst, ViewLoaded, Idle]
                          (freshMover, freshShell threePages 2 3 False))))
      = 1
   \<and> \<not> isMoving (fst (snd (run [MoveToFirst, ViewLoaded, Idle]
                          (freshMover, freshShell threePages 2 3 False))))"
  using move_to_first_scenario[of 0 0 0 False]
  by (auto simp add: threePages_def layoutOf_def)

subsection \<open>C4: cleanup when the mutation throws\<close>

text \<open>
  C4 says that after a read, normalisation or write that throws, the listener is
  disconnected, the pending target and the busy flag are cleared and the mover is idle
  again. The catch block (lines 144-153) calls \<^verbatim>\<open>disconnect\<close> before it clears the target
  and the flag, and outside any try, where \<^verbatim>\<open>destroy\<close> (lines 28-32) guards the same call.
  On three pages, from page 2, with a settings store that rejects the write and a display
  whose \<^verbatim>\<open>disconnect\<close> throws: \<^verbatim>\<open>movePageLeft\<close> throws the exception of \<^verbatim>\<open>disconnect\<close>, the
  error of the write is logged, and the mover is left busy, with target 1 and with handler
  1 remembered and connected.
\<close>

theorem mutation_failure_disconnect_throws:
  "mutationThrows 2 1 (withThrows [SetPages, Disconnect] (freshShell threePages 2 3 False))
   \<and> run [MoveLeft] (freshMover, withThrows [SetPages, Disconnect] (freshShell threePages 2 3 False))
     = ([ShellError Disconnect],
        freshMover\<lparr>isMoving := True, targetPageIndex := Some 1, rearrangedSignalId := Some 1\<rparr>,
        (withThrows [SetPages, Disconnect] (freshShell threePages 2 3 False))
          \<lparr>handlers := [1], nextHandlerId := 2,
           console := [(ERROR, SaveFailed (ShellError SetPages))]\<rparr>)"
  by (simp add: withThrows_def freshMover_def freshShell_def threePages_def singleAppPage_def
      mutationThrows_def movePageLeft_def executeSingleMove_def connect_def tryMove_def
      getPages_def setPages_def catchMove_def disconnectListener_def disconnect_def
      log_debug_def log_error_def currentLogLevel_def normalizePages_def
      normalizeProperties_def splicePage_def js_splice_def Let_def)

text \<open>
  Where \<^verbatim>\<open>connect\<close> and \<^verbatim>\<open>disconnect\<close> return and handler ids are positive, the catch block
  does all of it: the handler is disconnected and forgotten, the target and the busy flag
  are cleared, the error is logged, the layout is as before and nothing is retried.
\<close>

lemma mutation_failure_cleanup:
  assumes idle: "\<not> isMoving m" "appDisplay m"
    and env: "\<not> throws w Connect" "\<not> throws w Disconnect" "nextHandlerId w \<noteq> 0"
    and fails: "mutationThrows c n w"
  shows "\<exists>e w'. executeSingleMove c n m w =
             (None, m\<lparr>isMoving := False, targetPageIndex := None, rearrangedSignalId := None\<rparr>, w')
          \<and> nextHandlerId w \<notin> set (handlers w')
          \<and> (ERROR, SaveFailed e) \<in> set (console w')
          \<and> pages w' = pages w \<and> redisplays w' = redisplays w \<and> idleQueue w' = idleQueue w
          \<and> navigations w' = navigations w"
  using assms
  apply (simp add: executeSingleMove_def connect_def Let_def mutationThrows_def)
  apply (auto simp add: tryMove_def getPages_def setPages_def catchMove_def disconnectListener_def
      disconnect_def log_debug_def log_error_def currentLogLevel_def isl_def
      split: sum.splits prod.splits option.splits)
  done

subsection \<open>C5: what the normalisation wraps\<close>

text \<open>
  C5, as the claim states it, fails: \<^verbatim>\<open>_normalizePages\<close> reads and writes the field
  \<^verbatim>\<open>position\<close> only, so another field whose value is a plain number stays a plain number.
  Here the entry \<open>appA\<close> has \<^verbatim>\<open>position\<close> 1 and \<^verbatim>\<open>row\<close> 2: after the normalisation
  \<^verbatim>\<open>position\<close> is wrapped and \<^verbatim>\<open>row\<close> is still the number 2.
\<close>

theorem normalizePages_other_number_unwrapped:
  "normalizePages [JObject [(''appA'', JObject [(''position'', JNumber 1), (''row'', JNumber 2)])]]
     = Inr [JObject [(''appA'', JObject [(''position'', JVariant 1), (''row'', JNumber 2)])]]
   \<and> get_prop (JObject [(''position'', JVariant 1), (''row'', JNumber 2)]) ''row''
     = Inr (JNumber 2)"
  by (simp add: normalizePages_def normalizeProperties_def)

text \<open>
  C5, amended. When \<^verbatim>\<open>_normalizePages\<close> returns, every application entry of every page
  record has its \<^verbatim>\<open>position\<close> wrapped if it was a plain number; a \<^verbatim>\<open>position\<close> that is
  already wrapped, or is anything else, and every other field are as before, as are page
  records and entries that are not objects. What \<^verbatim>\<open>_executeSingleMove\<close> hands to the setter
  of \<^verbatim>\<open>pages\<close> is the spliced layout normalised so: after the try block the layout is
  either the old one or that list.
\<close>

theorem normalizePages_wraps_position:
  "(normalizePages ps = Inr ps' \<longrightarrow> ps' = map wrapPage ps)
   \<and> get_prop (wrapProperties (JObject fs)) k =
       (if k = ''position''
        then (case map_of fs ''position'' of
                Some (JNumber n) \<Rightarrow> Inr (JVariant n)
              | _ \<Rightarrow> get_prop (JObject fs) k)
        else get_prop (JObject fs) k)
   \<and> (pages (snd (tryMove c n w)) = pages w
      \<or> pages (snd (tryMove c n w)) = map wrapPage (splicePage c n (pages w)))"
  using normalizePages_wrap[of ps ps'] get_prop_wrapProperties[of fs k] tryMove_pages[of c n w]
  by blast

text \<open>The amended C5 at a page with a plain and a wrapped position.\<close>

theorem normalizePages_wraps_position_witness:
  "normalizePages [JObject [(''appA'', JObject [(''position'', JNumber 3)]),
                            (''appB'', JObject [(''position'', JVariant 4)])]]
     = Inr [JObject [(''appA'', JObject [(''position'', JVariant 3)]),
                     (''appB'', JObject [(''position'', JVariant 4)])]]
   \<and> map wrapPage [JObject [(''appA'', JObject [(''position'', JNumber 3)]),
                            (''appB'', JObject [(''position'', JVariant 4)])]]
     = [JObject [(''appA'', JObject [(''position'', JVariant 3)]),
                 (''appB'', JObject [(''position'', JVariant 4)])]]"
  using normalizePages_wraps_position[of
      "[JObject [(''appA'', JObject [(''position'', JNumber 3)]),
                 (''appB'', JObject [(''position'', JVariant 4)])]]"
      "[JObject [(''appA'', JObject [(''position'', JVariant 3)]),
                 (''appB'', JObject [(''position'', JVariant 4)])]]"
      "[(''position'', JNumber 3)]" "''position''" 0 0 "freshShell [] 0 0 False"]
  by (simp add: normalizePages_def normalizeProperties_def)

subsection \<open>C6: the boundary no-ops\<close>

text \<open>
  C6. When the current page index is 0, \<^verbatim>\<open>movePageLeft\<close> and \<^verbatim>\<open>moveToFirstPage\<close> return with
  the mover and the shell exactly as they were: no mutation, no busy flag, not even a log
  line. When the current page index is the last one (\<open>nPages - 1\<close>), so do \<^verbatim>\<open>movePageRight\<close>
  and \<^verbatim>\<open>moveToLastPage\<close>.
\<close>

theorem boundary_moves_are_noops:
  "(currentPage w = 0 \<longrightarrow>
      movePageLeft m w = (None, m, w) \<and> moveToFirstPage m w = (None, m, w))
 \<and> (currentPage w = nPages w - 1 \<longrightarrow>
      movePageRight m w = (None, m, w) \<and> moveToLastPage m w = (None, m, w))"
  by (simp add: movePageLeft_def movePageRight_def moveToFirstPage_def moveToLastPage_def)

text \<open>The theorem of C6 on the first and on the last of three pages.\<close>

theorem boundary_moves_are_noops_witness:
  "currentPage (freshShell threePages 0 3 False) = 0
   \<and> movePageLeft freshMover (freshShell threePages 0 3 False)
       = (None, freshMover, freshShell threePages 0 3 False)
   \<and> moveToFirstPage freshMover (freshShell threePages 0 3 False)
       = (None, freshMover, freshShell threePages 0 3 False)
   \<and> currentPage (freshShell threePages 2 3 False) = nPages (freshShell threePages 2 3 False) - 1
   \<and> movePageRight freshMover (freshShell threePages 2 3 False)
       = (None, freshMover, freshShell threePages 2 3 False)
   \<and> moveToLastPage freshMover (freshShell threePages 2 3 False)
       = (None, freshMover, freshShell threePages 2 3 False)"
  using boundary_moves_are_noops[of "freshShell threePages 0 3 False" freshMover]
    boundary_moves_are_noops[of "freshShell threePages 2 3 False" freshMover]
  by (simp add: freshShell_def)

subsection \<open>C7: a navigation that throws\<close>

text \<open>
  C7. When the idle callback runs with a display and a pending target \<open>t\<close> and
  \<^verbatim>\<open>goToPage\<close> throws, the callback itself throws nothing, the error is logged at error
  level, and the pending target and the busy flag are cleared: the mover is not left
  busy. The call of \<^verbatim>\<open>goToPage(t, false)\<close> was made.
\<close>

theorem navigation_failure_clears_state:
  assumes "appDisplay m" "targetPageIndex m = Some t" "throws w GoToPage"
  shows "\<exists>w'. idleCallback m w = (None, m\<lparr>targetPageIndex := None, isMoving := False\<rparr>, w')
            \<and> (ERROR, IdleNavigationError (ShellError GoToPage)) \<in> set (console w')
            \<and> navigations w' = navigations w @ [(t, False)]"
  using assms
  by (simp add: idleCallback_def goToPage_def log_debug_def log_error_def currentLogLevel_def
      Let_def)

text \<open>The theorem of C7 at a busy mover with target 0 and a \<^verbatim>\<open>goToPage\<close> that throws.\<close>

theorem navigation_failure_clears_state_witness:
  "throws ((freshShell threePages 2 3 False)\<lparr>idleQueue := 0, throws := (\<lambda>c. c = GoToPage)\<rparr>)
     GoToPage
   \<and> idleCallback (freshMover\<lparr>isMoving := True, targetPageIndex := Some 0\<rparr>)
        ((freshShell threePages 2 3 False)\<lparr>idleQueue := 0, throws := (\<lambda>c. c = GoToPage)\<rparr>)
      = (None, freshMover,
         (freshShell threePages 2 3 False)
           \<lparr>idleQueue := 0, throws := (\<lambda>c. c = GoToPage), navigations := [(0, False)],
            console := [(ERROR, IdleNavigationError (ShellError GoToPage))]\<rparr>)"
  using navigation_failure_clears_state[of
      "freshMover\<lparr>isMoving := True, targetPageIndex := Some 0\<rparr>" 0
      "(freshShell threePages 2 3 False)\<lparr>idleQueue := 0, throws := (\<lambda>c. c = GoToPage)\<rparr>"]
  by (simp add: freshMover_def freshShell_def idleCallback_def goToPage_def log_debug_def
      log_error_def currentLogLevel_def Let_def)

subsection \<open>C8: a stale view-loaded signal\<close>

text \<open>
  C8, as the claim states it, fails. With the pending target cleared and handler 2 still
  remembered (the mover at the end of the run move, \<^verbatim>\<open>view-loaded\<close>, \<^verbatim>\<open>destroy\<close>, move, idle
  callback), the handler is no no-op: it disconnects handler 2 and forgets it (lines
  83-86). That \<^verbatim>\<open>disconnect\<close> stands outside any try, so on a display whose \<^verbatim>\<open>disconnect\<close>
  throws the handler throws.
\<close>

theorem stale_view_loaded_disconnects:
  "targetPageIndex (freshMover\<lparr>rearrangedSignalId := Some 2\<rparr>) = None
   \<and> fst (snd (run [MoveLeft, ViewLoaded, Destroy, MoveLeft, Idle]
                   (freshMover, freshShell threePages 2 3 False)))
      = freshMover\<lparr>rearrangedSignalId := Some 2\<rparr>
   \<and> onViewLoaded (freshMover\<lparr>rearrangedSignalId := Some 2\<rparr>)
        ((freshShell threePages 1 3 False)\<lparr>handlers := [2]\<rparr>)
      = (None, freshMover,
         (freshShell threePages 1 3 False)
           \<lparr>handlers := [], console := [(WARN, ViewLoadedStateCleared)]\<rparr>)
   \<and> onViewLoaded (freshMover\<lparr>rearrangedSignalId := Some 2\<rparr>)
        (withThrows [Disconnect] ((freshShell threePages 1 3 False)\<lparr>handlers := [2]\<rparr>))
      = (Some (ShellError Disconnect), freshMover\<lparr>rearrangedSignalId := Some 2\<rparr>,
         (withThrows [Disconnect] ((freshShell threePages 1 3 False)\<lparr>handlers := [2]\<rparr>))
           \<lparr>console := [(WARN, ViewLoadedStateCleared)]\<rparr>)"
  by (simp add: withThrows_def freshMover_def freshShell_def threePages_def singleAppPage_def
      movePageLeft_def executeSingleMove_def connect_def tryMove_def
      getPages_def setPages_def redisplay_def normalizePages_def normalizeProperties_def
      log_debug_def log_warn_def currentLogLevel_def Let_def onViewLoaded_def
      disconnectListener_def disconnect_def idle_add_def idleCallback_def goToPage_def
      splicePage_def js_splice_def destroy_def)

text \<open>
  C8, amended. When the \<^verbatim>\<open>view-loaded\<close> handler runs and the pending target is already
  cleared, it queues no idle callback and calls neither \<^verbatim>\<open>goToPage\<close> nor \<^verbatim>\<open>_redisplay\<close>, it
  logs one warning, and the layout, the busy flag, the pending target and the display field
  are as before. With no truthy handler id remembered it returns normally with the mover
  unchanged and the shell changed in its console only. With one remembered, and a
  \<^verbatim>\<open>disconnect\<close> that returns, it returns normally, the handler is disconnected and the id
  forgotten.
\<close>

theorem stale_view_loaded_is_noop:
  assumes "targetPageIndex m = None"
  shows "\<exists>r m' w'. onViewLoaded m w = (r, m', w')
           \<and> isMoving m' = isMoving m \<and> targetPageIndex m' = None
           \<and> appDisplay m' = appDisplay m
           \<and> pages w' = pages w \<and> navigations w' = navigations w
           \<and> idleQueue w' = idleQueue w \<and> redisplays w' = redisplays w
           \<and> console w' = console w @ [(WARN, ViewLoadedStateCleared)]
           \<and> (\<not> (truthy (rearrangedSignalId m) \<and> appDisplay m)
                \<longrightarrow> r = None \<and> m' = m \<and> onlyLogged w w')
           \<and> (truthy (rearrangedSignalId m) \<and> appDisplay m \<and> \<not> throws w Disconnect
                \<longrightarrow> r = None \<and> m' = m\<lparr>rearrangedSignalId := None\<rparr>
                    \<and> (\<forall>i. rearrangedSignalId m = Some i
                           \<longrightarrow> handlers w' = removeAll i (handlers w)))"
  using assms
  by (auto simp add: onViewLoaded_def disconnectListener_def disconnect_def log_warn_def
      currentLogLevel_def onlyLogged_def split: option.splits)

text \<open>
  The amended C8 at a cleared mover whose handler is still connected, and at a mover that
  still remembers the handler.
\<close>

theorem stale_view_loaded_is_noop_witness:
  "targetPageIndex freshMover = None
   \<and> onViewLoaded freshMover ((freshShell threePages 1 3 False)\<lparr>handlers := [1]\<rparr>)
      = (None, freshMover,
         (freshShell threePages 1 3 False)
           \<lparr>handlers := [1], console := [(WARN, ViewLoadedStateCleared)]\<rparr>)
   \<and> targetPageIndex (freshMover\<lparr>isMoving := True, rearrangedSignalId := Some 1\<rparr>) = None
   \<and> onViewLoaded (freshMover\<lparr>isMoving := True, rearrangedSignalId := Some 1\<rparr>)
        ((freshShell threePages 1 3 False)\<lparr>handlers := [1]\<rparr>)
      = (None, freshMover\<lparr>isMoving := True\<rparr>,
         (freshShell threePages 1 3 False)
           \<lparr>handlers := [], console := [(WARN, ViewLoadedStateCleared)]\<rparr>)"
  using stale_view_loaded_is_noop[of freshMover
      "(freshShell threePages 1 3 False)\<lparr>handlers := [1]\<rparr>"]
    stale_view_loaded_is_noop[of "freshMover\<lparr>isMoving := True, rearrangedSignalId := Some 1\<rparr>"
      "(freshShell threePages 1 3 False)\<lparr>handlers := [1]\<rparr>"]
  by (simp add: freshMover_def freshShell_def onViewLoaded_def disconnectListener_def
      disconnect_def log_warn_def currentLogLevel_def)

subsection \<open>C9: destroy, any number of times\<close>

text \<open>
  C9. From any mover and any shell, also one whose \<^verbatim>\<open>disconnect\<close> throws, calling
  \<^verbatim>\<open>destroy\<close> once or more in a row throws nothing and leaves the busy flag cleared, the
  pending target \<^verbatim>\<open>null\<close> and the remembered handler id \<^verbatim>\<open>null\<close>. The shell changes in its
  handlers only: a remembered handler is disconnected, and so no longer connected, when
  its id is truthy, the display is set and \<^verbatim>\<open>disconnect\<close> returns; where no handler is
  remembered, or \<^verbatim>\<open>disconnect\<close> throws because the display is gone, the shell is as
  before.
\<close>

theorem destroy_repeated_clears:
  "destroyTimes (Suc k) m w =
      (None, m\<lparr>rearrangedSignalId := None, isMoving := False, targetPageIndex := None\<rparr>,
       unregistered m w)
   \<and> unregistered m w = w\<lparr>handlers := handlers (unregistered m w)\<rparr>
   \<and> (\<forall>i. rearrangedSignalId m = Some i \<and> i \<noteq> 0 \<and> appDisplay m \<and> \<not> throws w Disconnect
          \<longrightarrow> handlers (unregistered m w) = removeAll i (handlers w)
              \<and> i \<notin> set (handlers (unregistered m w)))
   \<and> (rearrangedSignalId m = None \<or> rearrangedSignalId m = Some 0 \<or> \<not> appDisplay m
        \<or> throws w Disconnect
          \<longrightarrow> unregistered m w = w)"
proof -
  have "destroyTimes (Suc k) m w =
      (None, m\<lparr>rearrangedSignalId := None, isMoving := False, targetPageIndex := None\<rparr>,
       unregistered m w)"
    using destroyTimes_cleared[of
        "m\<lparr>rearrangedSignalId := None, isMoving := False, targetPageIndex := None\<rparr>" k
        "unregistered m w"]
    by (simp add: destroy_unregistered)
  moreover have "unregistered m w = w\<lparr>handlers := handlers (unregistered m w)\<rparr>"
    by (simp add: unregistered_def split: option.splits)
  ultimately show ?thesis
    by (auto simp add: unregistered_def split: option.splits)
qed

text \<open>
  The theorem of C9 for three calls on a display whose \<^verbatim>\<open>disconnect\<close> throws (the handler
  stays connected there), and for two calls on one that disconnects.
\<close>

theorem destroy_repeated_clears_witness:
  "destroyTimes (Suc (Suc (Suc 0)))
     (freshMover\<lparr>isMoving := True, targetPageIndex := Some 0, rearrangedSignalId := Some 1\<rparr>)
     (withThrows [Disconnect] ((freshShell threePages 1 3 False)\<lparr>handlers := [1]\<rparr>))
   = (None, freshMover,
      withThrows [Disconnect] ((freshShell threePages 1 3 False)\<lparr>handlers := [1]\<rparr>))
   \<and> destroyTimes (Suc (Suc 0))
     (freshMover\<lparr>isMoving := True, targetPageIndex := Some 0, rearrangedSignalId := Some 1\<rparr>)
     ((freshShell threePages 1 3 False)\<lparr>handlers := [1]\<rparr>)
   = (None, freshMover, freshShell threePages 1 3 False)
   \<and> 1 \<notin> set (handlers (unregistered
       (freshMover\<lparr>isMoving := True, targetPageIndex := Some 0, rearrangedSignalId := Some 1\<rparr>)
       ((freshShell threePages 1 3 False)\<lparr>handlers := [1]\<rparr>)))"
  using destroy_repeated_clears[of "Suc (Suc 0)"
     "freshMover\<lparr>isMoving := True, targetPageIndex := Some 0, rearrangedSignalId := Some 1\<rparr>"
     "withThrows [Disconnect] ((freshShell threePages 1 3 False)\<lparr>handlers := [1]\<rparr>)"]
   destroy_repeated_clears[of "Suc 0"
     "freshMover\<lparr>isMoving := True, targetPageIndex := Some 0, rearrangedSignalId := Some 1\<rparr>"
     "(freshShell threePages 1 3 False)\<lparr>handlers := [1]\<rparr>"]
  by (simp add: freshMover_def freshShell_def withThrows_def unregistered_def)

subsection \<open>C10: no listener without a move in flight\<close>

text \<open>
  C10, as the claim states it, fails. \<^verbatim>\<open>destroy\<close> does not remove a queued idle callback.
  On three pages, from page 2: a move left, the \<^verbatim>\<open>view-loaded\<close> signal (the idle callback
  is queued), \<^verbatim>\<open>destroy\<close>, a second move left (handler 2 is connected), and then the
  queued idle callback, which finds a target, navigates and clears the busy flag. Nothing
  was thrown; the busy flag is false and handler 2 is still remembered and connected. The
  second move was requested while the mover was idle with an idle callback queued.
\<close>

theorem stale_idle_callback_leaves_listener:
  "fst (run [MoveLeft, ViewLoaded, Destroy, MoveLeft, Idle]
            (freshMover, freshShell threePages 2 3 False)) = []
   \<and> \<not> isMoving (fst (snd (run [MoveLeft, ViewLoaded, Destroy, MoveLeft, Idle]
                              (freshMover, freshShell threePages 2 3 False))))
   \<and> rearrangedSignalId (fst (snd (run [MoveLeft, ViewLoaded, Destroy, MoveLeft, Idle]
                              (freshMover, freshShell threePages 2 3 False)))) = Some 2
   \<and> handlers (snd (snd (run [MoveLeft, ViewLoaded, Destroy, MoveLeft, Idle]
                              (freshMover, freshShell threePages 2 3 False)))) = [2]
   \<and> \<not> noMoveOverQueuedIdle [MoveLeft, ViewLoaded, Destroy, MoveLeft, Idle]
                              (freshMover, freshShell threePages 2 3 False)"
  by (simp add: freshMover_def freshShell_def threePages_def singleAppPage_def
      movePageLeft_def executeSingleMove_def connect_def tryMove_def
      getPages_def setPages_def redisplay_def normalizePages_def normalizeProperties_def
      log_debug_def log_warn_def currentLogLevel_def Let_def onViewLoaded_def
      disconnectListener_def disconnect_def idle_add_def idleCallback_def goToPage_def
      splicePage_def js_splice_def destroy_def)

text \<open>
  C10, amended. Take a mover as the constructor builds it, a shell with positive handler
  ids, and any sequence of public operations, \<^verbatim>\<open>view-loaded\<close> signals, idle callbacks,
  \<^verbatim>\<open>destroy\<close> calls and changes of the outside world in which no move is requested while
  the mover is idle with an idle callback still queued. After every number \<open>k\<close> of its
  events: if the busy flag is false, the remembered handler id is \<^verbatim>\<open>null\<close>. External calls
  may throw at any point of the sequence, and the mover may be used again after
  \<^verbatim>\<open>destroy\<close>.
\<close>

theorem idle_mover_has_no_listener:
  assumes "newPageMover display = Inr m0"
    and "nextHandlerId w0 \<noteq> 0"
    and "noMoveOverQueuedIdle es (m0, w0)"
  shows "\<not> isMoving (fst (snd (run (take k es) (m0, w0))))
         \<longrightarrow> rearrangedSignalId (fst (snd (run (take k es) (m0, w0)))) = None"
proof -
  have "listenerInv (m0, w0)"
    using assms(1,2) by (auto simp add: newPageMover_def listenerInv_def split: if_splits)
  moreover have "noMoveOverQueuedIdle (take k es) (m0, w0)"
    using assms(3) by (rule noMoveOverQueuedIdle_take)
  ultimately have "listenerInv (snd (run (take k es) (m0, w0)))"
    by (rule listenerInv_run)
  then show ?thesis
    by (cases "snd (run (take k es) (m0, w0))")
       (auto simp add: listenerInv_def split: option.splits)
qed

text \<open>
  The amended C10 on a run that moves a page, destroys the mover and moves a page again,
  after the first idle callback and after the last one.
\<close>

theorem idle_mover_has_no_listener_witness:
  "noMoveOverQueuedIdle [MoveLeft, ViewLoaded, Idle, Destroy, MoveLeft, ViewLoaded, Idle]
       (freshMover, freshShell threePages 2 3 False)
   \<and> \<not> isMoving (fst (snd (run [MoveLeft, ViewLoaded, Idle]
                              (freshMover, freshShell threePages 2 3 False))))
   \<and> rearrangedSignalId (fst (snd (run [MoveLeft, ViewLoaded, Idle]
                              (freshMover, freshShell threePages 2 3 False)))) = None
   \<and> \<not> isMoving (fst (snd (run [MoveLeft, ViewLoaded, Idle, Destroy, MoveLeft, ViewLoaded, Idle]
                              (freshMover, freshShell threePages 2 3 False))))
   \<and> rearrangedSignalId
        (fst (snd (run [MoveLeft, ViewLoaded, Idle, Destroy, MoveLeft, ViewLoaded, Idle]
                       (freshMover, freshShell threePages 2 3 False)))) = None"
proof -
  have t: "take 3 [MoveLeft, ViewLoaded, Idle, Destroy, MoveLeft, ViewLoaded, Idle]
             = [MoveLeft, ViewLoaded, Idle]"
    "take 7 [MoveLeft, ViewLoaded, Idle, Destroy, MoveLeft, ViewLoaded, Idle]
             = [MoveLeft, ViewLoaded, Idle, Destroy, MoveLeft, ViewLoaded, Idle]"
    by simp_all
  have h: "nextHandlerId (freshShell threePages 2 3 False) \<noteq> 0"
    by (simp add: freshShell_def)
  note inst = idle_mover_has_no_listener[OF newPageMover_fresh h reused_run_allowed]
  show ?thesis
    using inst[of 3] inst[of 7] reused_run_allowed
    unfolding t run_reused_3 run_reused_7
    by (simp add: freshMover_def)
qed

end
